theory Spec2Isabelle
  imports Complex_Main "HOL-Library.Sublist"
begin

section \<open>Text primitives of the scrapers\<close>

text \<open>
  The scrapers work on Python \<open>str\<close> values. A text is modelled as a \<open>string\<close>
  holding its UTF-8 bytes: every keyword the code searches for is ASCII, and the
  emoji markers are fixed byte sequences, so \<open>sub in s\<close> on code points and on
  UTF-8 bytes agree (UTF-8 is self-synchronising). \<open>lower\<close>, \<open>strip\<close>, \<open>\s\<close> and
  \<open>\d\<close> are modelled on the ASCII range, where Python's \<open>str.isspace\<close> accepts the
  code points 9-13 and 28-32; white space, digits and letters beyond ASCII
  are left as they are.
  \<open>length\<close> counts bytes where Python's \<open>len\<close> counts code points; the two
  agree on ASCII text, and differ on the two-character threshold of a role or
  company cell only when the cell is a single character beyond ASCII.
\<close>

definition is_space :: "char \<Rightarrow> bool" where
  "is_space c = (let n = (of_char c :: nat) in (9 \<le> n \<and> n \<le> 13) \<or> (28 \<le> n \<and> n \<le> 32))"

definition is_digit :: "char \<Rightarrow> bool" where
  "is_digit c = (let n = (of_char c :: nat) in 48 \<le> n \<and> n \<le> 57)"

definition lower_char :: "char \<Rightarrow> char" where
  "lower_char c = (let n = (of_char c :: nat) in if 65 \<le> n \<and> n \<le> 90 then char_of (n + 32) else c)"

definition lower :: "string \<Rightarrow> string" where
  "lower s = map lower_char s"

definition strip :: "string \<Rightarrow> string" where
  "strip s = rev (dropWhile is_space (rev (dropWhile is_space s)))"

fun startswith :: "string \<Rightarrow> string \<Rightarrow> bool" where
  "startswith s [] = True"
| "startswith [] (p # ps) = False"
| "startswith (c # cs) (p # ps) = (c = p \<and> startswith cs ps)"

text \<open>\<open>str_in sub s\<close> is Python's \<open>sub in s\<close>: \<open>sub\<close> occurs in \<open>s\<close> as a contiguous run.\<close>

fun str_in :: "string \<Rightarrow> string \<Rightarrow> bool" where
  "str_in sub [] = (sub = [])"
| "str_in sub (c # cs) = (startswith (c # cs) sub \<or> str_in sub cs)"

text \<open>\<open>any_in subs s\<close> is \<open>any(sub in s for sub in subs)\<close>.\<close>

definition any_in :: "string list \<Rightarrow> string \<Rightarrow> bool" where
  "any_in subs s = list_ex (\<lambda>sub. str_in sub s) subs"

text \<open>\<open>split_on sep s\<close> is \<open>s.split(sep)\<close> for a one-character separator.\<close>

fun split_on :: "char \<Rightarrow> string \<Rightarrow> string list" where
  "split_on sep [] = [[]]"
| "split_on sep (c # cs) =
     (if c = sep then [] # split_on sep cs
      else (case split_on sep cs of
              [] \<Rightarrow> [[c]]
            | w # ws \<Rightarrow> (c # w) # ws))"

text \<open>\<open>int(digits)\<close> for a run of ASCII digits, a Python \<open>int\<close>.\<close>

definition digit_val :: "char \<Rightarrow> int" where
  "digit_val c = int (of_char c) - 48"

definition int_of_digits :: "string \<Rightarrow> int" where
  "int_of_digits ds = foldl (\<lambda>a c. 10 * a + digit_val c) 0 ds"

section \<open>Freshness engine\<close>

text \<open>
  \<open>calculate_freshness_score\<close> (the same text in \<open>scrape_zapply_github.py\<close> and
  \<open>scrape_zapply_swe_2026.py\<close>). The age is a Python \<open>int\<close> or \<open>float\<close> or \<open>None\<close>;
  it is modelled as an optional rational. The quotient \<open>value / 24.0\<close> is the
  double nearest to the exact quotient; rounding is monotone and the thresholds
  1, 7, 14, 30 and 60 are doubles, so every comparison below gives the same
  answer on the exact quotient as on the double.
\<close>

definition calculate_freshness_score :: "rat option \<Rightarrow> int" where
  "calculate_freshness_score days_ago =
     (case days_ago of
        None \<Rightarrow> 50
      | Some d \<Rightarrow>
          if d < 1 then 100
          else if d < 7 then 90
          else if d < 14 then 75
          else if d < 30 then 60
          else if d < 60 then 40
          else 20)"

section \<open>Company classification and job type\<close>

text \<open>The inclusion lists of \<open>scrape_zapply_github.py\<close> (lines 173 and 177-179).\<close>

definition faang_companies :: "string list" where
  "faang_companies =
     [''google'', ''amazon'', ''apple'', ''meta'', ''facebook'', ''microsoft'', ''netflix'']"

definition tier1_companies :: "string list" where
  "tier1_companies =
     [''tesla'', ''nvidia'', ''spacex'', ''stripe'', ''coinbase'',
      ''uber'', ''lyft'', ''airbnb'', ''databricks'', ''openai'',
      ''anthropic'', ''snap'', ''reddit'', ''dropbox'', ''twitch'', ''x'', ''twitter'']"

definition zapply_is_faang :: "string \<Rightarrow> bool" where
  "zapply_is_faang current_company = any_in faang_companies (lower current_company)"

definition zapply_is_tier1 :: "string \<Rightarrow> bool" where
  "zapply_is_tier1 current_company = any_in tier1_companies (lower current_company)"

text \<open>The inclusion list of \<open>scrape_zapply_swe_2026.py\<close> (line 132).\<close>

definition swe_faang_companies :: "string list" where
  "swe_faang_companies =
     [''amazon'', ''meta'', ''facebook'', ''apple'', ''netflix'', ''google'']"

definition swe_company_is_faang :: "string \<Rightarrow> bool" where
  "swe_company_is_faang company = any_in swe_faang_companies (lower company)"

text \<open>
  The names of the comment at lines 182-183 of \<open>scrape_zapply_github.py\<close>
  (``DO NOT mark these as FAANG/Tier-1''). The comment is all the code has of
  the list: no statement reads it.
\<close>

definition excluded_companies :: "string list" where
  "excluded_companies =
     [''BMO'', ''CIBC'', ''RBC'', ''TD'', ''Scotiabank'', ''Autodesk'',
      ''Canada Life'', ''Deloitte'', ''EY'', ''PwC'', ''KPMG'', ''Accenture'']"

text \<open>The job type of a Zapply row (lines 161-170).\<close>

definition zapply_job_type :: "string \<Rightarrow> string" where
  "zapply_job_type role =
     (let role_lower = lower role in
      if str_in ''intern'' role_lower then ''internship''
      else if str_in ''co-op'' role_lower \<or> str_in ''coop'' role_lower then ''internship''
      else if str_in ''contract'' role_lower then ''contract''
      else ''fulltime'')"

section \<open>Relative time phrases\<close>

text \<open>
  \<open>re.search(r'(\d+)\s*(h|d|w|mo|m)\s*ago', time_str)\<close>. \<open>match_time_at\<close> is one
  attempt of the pattern at the start of its argument, \<open>search_time\<close> the scan
  for the leftmost start position. The greedy runs \<open>\d+\<close> and \<open>\s*\<close> are taken
  whole: a shorter run of digits would leave a digit, and a shorter run of
  spaces a space, in front of a unit letter, so backtracking into them finds
  nothing new. The alternatives of the unit are tried in the order written.
\<close>

definition time_units :: "string list" where
  "time_units = [''h'', ''d'', ''w'', ''mo'', ''m'']"

fun first_unit :: "string list \<Rightarrow> string \<Rightarrow> string option" where
  "first_unit [] r = None"
| "first_unit (u # us) r =
     (if startswith r u \<and> startswith (dropWhile is_space (drop (length u) r)) ''ago''
      then Some u else first_unit us r)"

definition match_time_at :: "string \<Rightarrow> (int \<times> string) option" where
  "match_time_at s =
     (let ds = takeWhile is_digit s in
      if ds = [] then None
      else (case first_unit time_units (dropWhile is_space (dropWhile is_digit s)) of
              None \<Rightarrow> None
            | Some u \<Rightarrow> Some (int_of_digits ds, u)))"

fun search_time :: "string \<Rightarrow> (int \<times> string) option" where
  "search_time [] = None"
| "search_time (c # cs) =
     (case match_time_at (c # cs) of
        Some r \<Rightarrow> Some r
      | None \<Rightarrow> search_time cs)"

text \<open>
  The clock of Python's \<open>datetime\<close>. An instant is the number of days, with
  fraction, since 0001-01-01T00:00:00, the smallest \<open>datetime\<close>; the first
  instant past the largest is day 3652059. \<open>timedelta(days=d)\<close> raises
  \<open>OverflowError\<close> when the whole days exceed 999999999 in magnitude, and a
  subtraction raises it when the result leaves the calendar. (So do
  \<open>value / 24.0\<close> for an integer too large for a double; such a value is
  beyond the bound of \<open>timedelta\<close> as well, and the model raises there.)
  From Python 3.11 on, \<open>int\<close> of more than 4300 digits raises \<open>ValueError\<close>
  first; the model reports that failure as \<open>OverflowError\<close> too, and the
  callers catch both alike. A \<open>float\<close> age is rounded to microseconds by
  \<open>timedelta\<close>; the model subtracts the exact age.
  \<open>strftime('%Y-%m-%d')\<close> names the calendar day of an instant; the day is
  modelled by its number.
\<close>

text \<open>
  The exceptions of the model: \<open>OverflowError\<close> from the clock, \<open>ReportError\<close> for
  an exception of the statistics a scraper prints, \<open>DatabaseError\<close> for a failed
  statement of sqlite3 or pandas, \<open>ImportFailed\<close> for the \<open>ImportError\<close> of the
  orchestrator.
\<close>

datatype error = OverflowError | ReportError | DatabaseError | ImportFailed

definition datetime_max :: rat where
  "datetime_max = 3652059"

definition timedelta :: "rat \<Rightarrow> error + rat" where
  "timedelta days =
     (if \<lfloor>days\<rfloor> > 999999999 \<or> \<lfloor>days\<rfloor> < - 999999999 then Inl OverflowError else Inr days)"

definition datetime_sub :: "rat \<Rightarrow> rat \<Rightarrow> error + rat" where
  "datetime_sub t delta =
     (if t - delta < 0 \<or> datetime_max \<le> t - delta then Inl OverflowError else Inr (t - delta))"

definition strftime_date :: "rat \<Rightarrow> int" where
  "strftime_date t = \<lfloor>t\<rfloor>"

text \<open>
  \<open>parse_time_ago\<close> (the same text in both Zapply scrapers). \<open>now\<close> is what
  \<open>datetime.now()\<close> returns. The result is the pair (date, days) of the source,
  or the exception that leaves the function.
\<close>

definition days_of_unit :: "string \<Rightarrow> int \<Rightarrow> rat" where
  "days_of_unit unit val =
     (if unit = ''h'' then of_int val / 24
      else if unit = ''d'' then of_int val
      else if unit = ''w'' then of_int val * 7
      else if unit \<in> set [''mo'', ''m''] then of_int val * 30
      else 0)"

definition parse_time_ago :: "rat \<Rightarrow> string \<Rightarrow> error + (int option \<times> rat option)" where
  "parse_time_ago now time_str =
     (case search_time (strip (lower time_str)) of
        None \<Rightarrow> Inr (None, None)
      | Some (val, unit) \<Rightarrow>
          (let days_ago = days_of_unit unit val in
           case timedelta days_ago of
             Inl e \<Rightarrow> Inl e
           | Inr delta \<Rightarrow>
               (case datetime_sub now delta of
                  Inl e \<Rightarrow> Inl e
                | Inr date_posted \<Rightarrow> Inr (Some (strftime_date date_posted), Some days_ago))))"

section \<open>The Zapply parser\<close>

text \<open>
  One dictionary of \<open>jobs\<close> in \<open>scrape_zapply_github\<close> (lines 185-207), as a
  record. The keys \<open>job_url\<close>, \<open>site\<close>, \<open>source\<close> and \<open>collected_at\<close> are left
  out: nothing below reads them, and computing them cannot raise.
\<close>

record zapply_job =
  company :: string
  title :: string
  location :: string
  posted_ago :: string
  days_ago :: "rat option"
  date_posted :: int
  freshness_score :: int
  is_fresh :: bool
  level :: string
  category :: string
  job_type :: string
  is_faang :: bool
  is_tier1 :: bool
  description :: string

text \<open>
  The heading pattern of line 104,
  \<open>####\s+[...]?\s*\*\*([A-Za-z0-9\s&\.]+)\*\*\<close>, whose bracket holds eleven
  emoji. \<open>heading_emoji\<close> lists their UTF-8 encodings.
\<close>

definition heading_emoji :: "string list" where
  "heading_emoji =
     [[CHR 0xF0, CHR 0x9F, CHR 0x94, CHR 0xA5], [CHR 0xF0, CHR 0x9F, CHR 0x9F, CHR 0xA2],
      [CHR 0xF0, CHR 0x9F, CHR 0x9F, CHR 0xA6], [CHR 0xF0, CHR 0x9F, CHR 0x94, CHR 0xB5],
      [CHR 0xF0, CHR 0x9F, CHR 0x93, CHR 0xA6], [CHR 0xF0, CHR 0x9F, CHR 0x8D, CHR 0x8E],
      [CHR 0xF0, CHR 0x9F, CHR 0x8E, CHR 0xAC], [CHR 0xE2, CHR 0x9A, CHR 0xA1],
      [CHR 0xF0, CHR 0x9F, CHR 0x8E, CHR 0xAE], [CHR 0xF0, CHR 0x9F, CHR 0x92, CHR 0xB3],
      [CHR 0xE2, CHR 0x82, CHR 0xBF]]"

definition is_company_char :: "char \<Rightarrow> bool" where
  "is_company_char c =
     (let n = (of_char c :: nat) in
      (65 \<le> n \<and> n \<le> 90) \<or> (97 \<le> n \<and> n \<le> 122) \<or> (48 \<le> n \<and> n \<le> 57) \<or>
      is_space c \<or> c = CHR ''&'' \<or> c = CHR ''.'')"

text \<open>The part \<open>\s*\*\*([A-Za-z0-9\s&\.]+)\*\*\<close>, giving group 1.\<close>

definition match_company_tail :: "string \<Rightarrow> string option" where
  "match_company_tail s =
     (let r = dropWhile is_space s in
      if startswith r ''**'' then
        (let body = drop 2 r; g = takeWhile is_company_char body in
         if g \<noteq> [] \<and> startswith (dropWhile is_company_char body) ''**'' then Some g else None)
      else None)"

definition match_company_at :: "string \<Rightarrow> string option" where
  "match_company_at s =
     (if startswith s ''####'' then
        (let r = drop 4 s; r1 = dropWhile is_space r in
         if takeWhile is_space r = [] then None
         else (case find (startswith r1) heading_emoji of
                 Some e \<Rightarrow>
                   (case match_company_tail (drop (length e) r1) of
                      Some g \<Rightarrow> Some g
                    | None \<Rightarrow> match_company_tail r1)
               | None \<Rightarrow> match_company_tail r1))
      else None)"

fun search_company :: "string \<Rightarrow> string option" where
  "search_company [] = None"
| "search_company (c # cs) =
     (case match_company_at (c # cs) of
        Some g \<Rightarrow> Some g
      | None \<Rightarrow> search_company cs)"

text \<open>The variables the loop of lines 96-207 carries from line to line.\<close>

record zapply_state =
  current_company :: string
  in_table :: bool
  table_header_seen :: bool
  jobs :: "zapply_job list"

definition zapply_cells :: "string \<Rightarrow> string list" where
  "zapply_cells line = filter (\<lambda>c. c \<noteq> []) (map strip (split_on (CHR ''|'') line))"

text \<open>
  Lines 136-207: the record of a row of at least four cells under the heading
  \<open>cur\<close>. \<open>None\<close> is the \<open>continue\<close> of line 152; \<open>Inl\<close> is an exception of
  \<open>parse_time_ago\<close>, which nothing inside the loop catches.
\<close>

definition zapply_record :: "rat \<Rightarrow> string \<Rightarrow> string list \<Rightarrow> error + zapply_job option" where
  "zapply_record now cur cells =
     (let role = strip (cells ! 0);
          loc = strip (cells ! 1);
          posted = (if length cells > 2 then strip (cells ! 2) else ''Unknown'');
          lvl = (if length cells > 3 then strip (cells ! 3) else ''Entry-Level'');
          cat = (if length cells > 4 then strip (cells ! 4) else ''Software Engineering'')
      in
      if role = [] \<or> length role < 2 then Inr None
      else
        (case parse_time_ago now posted of
           Inl e \<Rightarrow> Inl e
         | Inr (parsed_date, age) \<Rightarrow>
             (let faang = zapply_is_faang cur;
                  tier1 = zapply_is_tier1 cur
              in Inr (Some
                   \<lparr>company = cur,
                    title = role,
                    location = loc,
                    posted_ago = posted,
                    days_ago = age,
                    date_posted = (case parsed_date of Some d \<Rightarrow> d | None \<Rightarrow> strftime_date now),
                    freshness_score = calculate_freshness_score age,
                    is_fresh = (case age of None \<Rightarrow> False | Some a \<Rightarrow> a < 7),
                    level = lvl,
                    category = cat,
                    job_type = zapply_job_type role,
                    is_faang = faang,
                    is_tier1 = tier1,
                    description =
                      lvl @ '' position at '' @ cur @ '' in '' @ cat @ ''. '' @
                      ''Posted '' @ posted @ ''. '' @
                      (if faang then ''FAANG company. '' else []) @
                      (if tier1 \<and> \<not> faang then ''Top-tier tech company. '' else [])\<rparr>))))"

text \<open>The body of the loop for one line (lines 101-207).\<close>

definition zapply_line :: "rat \<Rightarrow> zapply_state \<Rightarrow> string \<Rightarrow> error + zapply_state" where
  "zapply_line now st line =
     (if startswith (strip line) ''####'' \<and> str_in ''**'' line then
        (case search_company line of
           Some g \<Rightarrow>
             Inr (st\<lparr>current_company := strip g, in_table := False, table_header_seen := False\<rparr>)
         | None \<Rightarrow> Inr st)
      else if str_in ''|'' line \<and> str_in ''---'' line then
        Inr (st\<lparr>in_table := True, table_header_seen := True\<rparr>)
      else if str_in ''|'' line \<and> \<not> in_table st \<and> (str_in ''Role'' line \<or> str_in ''Company'' line) then
        Inr st
      else if str_in ''|'' line \<and> in_table st \<and> table_header_seen st then
        (let cells = zapply_cells line in
         if length cells < 4 then
           (if strip line = [] \<or> \<not> startswith (strip line) ''|''
            then Inr (st\<lparr>in_table := False, table_header_seen := False\<rparr>)
            else Inr st)
         else
           (case zapply_record now (current_company st) cells of
              Inl e \<Rightarrow> Inl e
            | Inr None \<Rightarrow> Inr st
            | Inr (Some job) \<Rightarrow> Inr (st\<lparr>jobs := jobs st @ [job]\<rparr>)))
      else Inr st)"

fun zapply_lines :: "rat \<Rightarrow> zapply_state \<Rightarrow> string list \<Rightarrow> error + zapply_state" where
  "zapply_lines now st [] = Inr st"
| "zapply_lines now st (line # rest) =
     (case zapply_line now st line of
        Inl e \<Rightarrow> Inl e
      | Inr st' \<Rightarrow> zapply_lines now st' rest)"

definition zapply_init :: zapply_state where
  "zapply_init =
     \<lparr>current_company = ''Unknown'', in_table = False, table_header_seen = False, jobs = []\<rparr>"

text \<open>
  What \<open>requests.get\<close> followed by \<open>raise_for_status\<close> gives: the text of the
  document, or an exception (time-out, connection failure, error status).
\<close>

datatype 'a fetched = FetchFailed | Fetched 'a

text \<open>
  \<open>scrape_zapply_github\<close>. It returns \<open>None\<close> after a failed fetch (line 87), an
  exception while parsing (line 215) or an empty batch (line 221). The
  statistics printed by lines 223-263 are computed by pandas on the batch;
  \<open>report_raises\<close> says whether one of these computations raised, and then the
  exception leaves the function.
\<close>

definition scrape_zapply_github ::
    "rat \<Rightarrow> bool \<Rightarrow> string fetched \<Rightarrow> error + zapply_job list option" where
  "scrape_zapply_github now report_raises response =
     (case response of
        FetchFailed \<Rightarrow> Inr None
      | Fetched markdown \<Rightarrow>
          (case zapply_lines now zapply_init (split_on (CHR 0x0A) markdown) of
             Inl e \<Rightarrow> Inr None
           | Inr st \<Rightarrow>
               if length (jobs st) = 0 then Inr None
               else if report_raises then Inl ReportError
               else Inr (Some (jobs st))))"

section \<open>The Zapply SWE 2026 parser\<close>

text \<open>
  One dictionary of \<open>jobs\<close> in \<open>scrape_zapply_swe_2026\<close> (lines 135-148), without
  the keys \<open>url\<close>, \<open>source\<close> and \<open>scraped_at\<close>. \<open>date_posted\<close> is the parsed day or,
  when there is none, the text of the cell.
\<close>

record swe_job =
  swe_company :: string
  swe_title :: string
  swe_location :: string
  swe_date_posted :: "int + string"
  swe_posted_time_ago :: string
  swe_days_ago :: "rat option"
  swe_freshness_score :: int
  swe_is_faang :: bool
  swe_is_archived :: bool

record swe_state =
  current_section :: string
  swe_jobs :: "swe_job list"

text \<open>
  Lines 112-153: the record of a row. An exception of \<open>parse_time_ago\<close> is
  caught by the \<open>except\<close> of line 152 and the row is skipped (\<open>None\<close>).
\<close>

definition swe_record :: "rat \<Rightarrow> string \<Rightarrow> string list \<Rightarrow> swe_job option" where
  "swe_record now section parts =
     (let comp = (if length parts > 1 then parts ! 1 else ''Unknown'');
          role = (if length parts > 2 then parts ! 2 else ''Unknown'');
          loc = (if length parts > 3 then parts ! 3 else ''Unknown'');
          posted_date = (if length parts > 4 then parts ! 4 else ''Unknown'')
      in
      case parse_time_ago now posted_date of
        Inl e \<Rightarrow> None
      | Inr (parsed_date, age) \<Rightarrow>
          Some \<lparr>swe_company = comp,
                swe_title = role,
                swe_location = loc,
                swe_date_posted = (case parsed_date of Some d \<Rightarrow> Inl d | None \<Rightarrow> Inr posted_date),
                swe_posted_time_ago = posted_date,
                swe_days_ago = age,
                swe_freshness_score = calculate_freshness_score age,
                swe_is_faang = swe_company_is_faang comp,
                swe_is_archived = (section = ''archived'')\<rparr>)"

definition swe_line :: "rat \<Rightarrow> swe_state \<Rightarrow> string \<Rightarrow> swe_state" where
  "swe_line now st line =
     (if str_in ''archived'' (lower line) \<and> str_in ''jobs'' (lower line) then
        st\<lparr>current_section := ''archived''\<rparr>
      else if str_in ''|'' line \<and> \<not> startswith (strip line) ''|--'' then
        (let parts = map strip (split_on (CHR ''|'') line) in
         if length parts < 4 \<or> str_in ''Company'' line \<or> str_in ''Role'' line then st
         else (case swe_record now (current_section st) parts of
                 None \<Rightarrow> st
               | Some job \<Rightarrow> st\<lparr>swe_jobs := swe_jobs st @ [job]\<rparr>))
      else st)"

definition swe_init :: swe_state where
  "swe_init = \<lparr>current_section = ''active'', swe_jobs = []\<rparr>"

text \<open>
  \<open>scrape_zapply_swe_2026\<close>: \<open>None\<close> after a failed fetch (line 86) or an empty
  batch (line 163); the breakdown of lines 168-181 is computed by pandas, as in
  the other scrapers.
\<close>

definition scrape_zapply_swe_2026 ::
    "rat \<Rightarrow> bool \<Rightarrow> string fetched \<Rightarrow> error + swe_job list option" where
  "scrape_zapply_swe_2026 now report_raises response =
     (case response of
        FetchFailed \<Rightarrow> Inr None
      | Fetched markdown \<Rightarrow>
          (let st = foldl (swe_line now) swe_init (split_on (CHR 0x0A) markdown) in
           if swe_jobs st = [] then Inr None
           else if report_raises then Inl ReportError
           else Inr (Some (swe_jobs st))))"

section \<open>The SimplifyJobs parser\<close>

text \<open>
  \<open>scrape_simplify_jobs_github\<close> reads the document through BeautifulSoup. Its
  input here is what \<open>soup.find_all('table')\<close> yields: the tables in document
  order, each the list of its \<open>tr\<close> rows, each row the texts
  \<open>get_text(strip=True)\<close> of its \<open>td\<close> cells. The link of the fourth cell feeds
  \<open>job_url\<close> only, which is left out as are \<open>site\<close>, \<open>source\<close> and
  \<open>collected_at\<close>.
\<close>

type_synonym html_row = "string list"
type_synonym html_table = "html_row list"

record simplify_job =
  gh_company :: string
  gh_title :: string
  gh_location :: string
  gh_age_posted :: string
  gh_age_days :: "int option"
  gh_requires_sponsorship :: bool
  gh_requires_citizenship :: bool
  gh_is_closed :: bool
  gh_is_faang :: bool
  gh_requires_advanced_degree :: bool
  gh_job_type :: string
  gh_description :: string
  gh_date_posted :: int

text \<open>The markers of lines 87-91, in UTF-8.\<close>

definition emoji_passport :: string where
  "emoji_passport = [CHR 0xF0, CHR 0x9F, CHR 0x9B, CHR 0x82]"

definition emoji_us_flag :: string where
  "emoji_us_flag = [CHR 0xF0, CHR 0x9F, CHR 0x87, CHR 0xBA, CHR 0xF0, CHR 0x9F, CHR 0x87, CHR 0xB8]"

definition emoji_lock :: string where
  "emoji_lock = [CHR 0xF0, CHR 0x9F, CHR 0x94, CHR 0x92]"

definition emoji_fire :: string where
  "emoji_fire = [CHR 0xF0, CHR 0x9F, CHR 0x94, CHR 0xA5]"

definition emoji_graduation :: string where
  "emoji_graduation = [CHR 0xF0, CHR 0x9F, CHR 0x8E, CHR 0x93]"

text \<open>\<open>remove_all sub s\<close> is \<open>s.replace(sub, '')\<close> for a non-empty \<open>sub\<close>.\<close>

function remove_all :: "string \<Rightarrow> string \<Rightarrow> string" where
  "remove_all sub [] = []"
| "remove_all sub (c # cs) =
     (if sub \<noteq> [] \<and> startswith (c # cs) sub
      then remove_all sub (drop (length sub) (c # cs))
      else c # remove_all sub cs)"
  by pat_completeness auto
termination
  by (relation "measure (\<lambda>(sub, s). length s)") (auto simp: Suc_le_eq)

text \<open>\<open>re.search(r'(\d+)d', age)\<close>, group 1 as a number.\<close>

definition match_age_at :: "string \<Rightarrow> int option" where
  "match_age_at s =
     (let ds = takeWhile is_digit s in
      if ds \<noteq> [] \<and> startswith (dropWhile is_digit s) ''d'' then Some (int_of_digits ds) else None)"

fun search_age :: "string \<Rightarrow> int option" where
  "search_age [] = None"
| "search_age (c # cs) =
     (case match_age_at (c # cs) of
        Some n \<Rightarrow> Some n
      | None \<Rightarrow> search_age cs)"

text \<open>Lines 67-127: the record of one row, \<open>None\<close> for a row that is skipped.\<close>

definition simplify_record :: "rat \<Rightarrow> html_row \<Rightarrow> simplify_job option" where
  "simplify_record now cells =
     (if length cells < 5 then None
      else
        (let comp = cells ! 0;
             role = cells ! 1;
             loc = cells ! 2;
             age = cells ! 4
         in
         if comp = [] \<or> length comp < 2 then None
         else
           (let no_sponsorship = str_in emoji_passport role;
                us_citizenship = str_in emoji_us_flag role;
                closed = str_in emoji_lock role;
                faang = str_in emoji_fire role;
                advanced_degree = str_in emoji_graduation role;
                role_clean =
                  strip (foldl (\<lambda>r emoji. remove_all emoji r) role
                    [emoji_passport, emoji_us_flag, emoji_lock, emoji_fire, emoji_graduation])
            in Some
                 \<lparr>gh_company = comp,
                  gh_title = role_clean,
                  gh_location = loc,
                  gh_age_posted = age,
                  gh_age_days = search_age age,
                  gh_requires_sponsorship = (\<not> no_sponsorship),
                  gh_requires_citizenship = us_citizenship,
                  gh_is_closed = closed,
                  gh_is_faang = faang,
                  gh_requires_advanced_degree = advanced_degree,
                  gh_job_type = ''fulltime'',
                  gh_description =
                    ''New graduate position at '' @ comp @ ''. '' @
                    (if faang then ''FAANG company. '' else []) @
                    (if us_citizenship then ''US Citizenship required. '' else []) @
                    (if no_sponsorship then ''Visa sponsorship NOT available. ''
                     else ''Visa sponsorship may be available. '') @
                    (if advanced_degree
                     then ''Advanced degree (Master'' @ [CHR 0x27] @ ''s/PhD) required. ''
                     else []),
                  gh_date_posted = strftime_date now\<rparr>)))"

text \<open>
  \<open>scrape_simplify_jobs_github\<close>: \<open>None\<close> after a failed fetch (line 39), for a
  document without a table (line 54) and for an empty batch (line 141). Only
  the first table is read, from its second row on. The statistics of lines
  143-169 are computed by pandas.
\<close>

definition scrape_simplify_jobs_github ::
    "rat \<Rightarrow> bool \<Rightarrow> html_table list fetched \<Rightarrow> error + simplify_job list option" where
  "scrape_simplify_jobs_github now report_raises response =
     (case response of
        FetchFailed \<Rightarrow> Inr None
      | Fetched all_tables \<Rightarrow>
          (case all_tables of
             [] \<Rightarrow> Inr None
           | swe_table # _ \<Rightarrow>
               (let batch = List.map_filter (simplify_record now) (drop 1 swe_table) in
                if length batch = 0 then Inr None
                else if report_raises then Inl ReportError
                else Inr (Some batch))))"

section \<open>Snapshot writers\<close>

text \<open>
  The part of \<open>jobs.db\<close> the three scrapers write: one table each, \<open>None\<close> while
  the table does not exist, otherwise its committed rows in insertion order.
\<close>

record database =
  github_jobs :: "simplify_job list option"
  zapply_jobs :: "zapply_job list option"
  zapply_swe_2026_jobs :: "swe_job list option"

text \<open>
  The statements of a writer that can raise. A writer takes the step that
  raises in this run, if any. The model follows sqlite3 and pandas:
  \<open>CREATE TABLE IF NOT EXISTS\<close> runs outside a transaction and is durable at
  once; \<open>DELETE\<close> opens a transaction; \<open>to_sql\<close> commits its rows, and with them
  the pending \<open>DELETE\<close>, when it succeeds and rolls the transaction back when it
  raises; a connection dropped with an open transaction loses it.
\<close>

datatype db_step = Connect | CreateTable | DeleteRows | InsertRows | Commit | CountRows

definition ensure_table :: "'r list option \<Rightarrow> 'r list option" where
  "ensure_table t = (case t of None \<Rightarrow> Some [] | Some rows \<Rightarrow> Some rows)"

text \<open>
  \<open>save_to_database\<close> of \<open>scrape_github_jobs.py\<close> (lines 173-233). It returns
  nothing and lets no exception out (line 230), so the new database is all
  there is to return. The row count of lines 221-228 is printed and compared
  with nothing.
\<close>

definition save_to_database_github ::
    "db_step option \<Rightarrow> simplify_job list option \<Rightarrow> database \<Rightarrow> database" where
  "save_to_database_github raises jobs_df db =
     (case jobs_df of
        None \<Rightarrow> db
      | Some batch \<Rightarrow>
          if length batch = 0 then db
          else if raises = Some Connect \<or> raises = Some CreateTable then db
          else
            (let db1 = db\<lparr>github_jobs := ensure_table (github_jobs db)\<rparr> in
             if raises = Some DeleteRows \<or> raises = Some InsertRows then db1
             else db1\<lparr>github_jobs := Some batch\<rparr>))"

text \<open>\<open>save_to_database\<close> of \<open>scrape_zapply_github.py\<close> (lines 267-328), the same code on \<open>zapply_jobs\<close>.\<close>

definition save_to_database_zapply ::
    "db_step option \<Rightarrow> zapply_job list option \<Rightarrow> database \<Rightarrow> database" where
  "save_to_database_zapply raises jobs_df db =
     (case jobs_df of
        None \<Rightarrow> db
      | Some batch \<Rightarrow>
          if length batch = 0 then db
          else if raises = Some Connect \<or> raises = Some CreateTable then db
          else
            (let db1 = db\<lparr>zapply_jobs := ensure_table (zapply_jobs db)\<rparr> in
             if raises = Some DeleteRows \<or> raises = Some InsertRows then db1
             else db1\<lparr>zapply_jobs := Some batch\<rparr>))"

text \<open>
  \<open>save_to_database\<close> of \<open>scrape_zapply_swe_2026.py\<close> (lines 185-246). It has no
  guard for an empty batch, inserts row by row inside the transaction the
  \<open>DELETE\<close> opened, commits once, counts nothing, and re-raises (line 246): the
  second component is the exception that leaves it.
\<close>

definition save_to_database_swe ::
    "db_step option \<Rightarrow> swe_job list \<Rightarrow> database \<Rightarrow> database \<times> error option" where
  "save_to_database_swe raises batch db =
     (if raises = Some Connect \<or> raises = Some CreateTable then (db, Some DatabaseError)
      else
        (let db1 = db\<lparr>zapply_swe_2026_jobs := ensure_table (zapply_swe_2026_jobs db)\<rparr> in
         if raises = Some DeleteRows \<or> raises = Some InsertRows \<or> raises = Some Commit
         then (db1, Some DatabaseError)
         else (db1\<lparr>zapply_swe_2026_jobs := Some batch\<rparr>, None)))"

text \<open>
  The \<open>__main__\<close> block of \<open>scrape_zapply_swe_2026.py\<close> (lines 248-262), up to
  the write of the table: \<open>if jobs:\<close> lets a non-empty batch through.
\<close>

definition swe_main ::
    "rat \<Rightarrow> bool \<Rightarrow> string fetched \<Rightarrow> db_step option \<Rightarrow> database \<Rightarrow> database" where
  "swe_main now report_raises response raises db =
     (case scrape_zapply_swe_2026 now report_raises response of
        Inl e \<Rightarrow> db
      | Inr None \<Rightarrow> db
      | Inr (Some batch) \<Rightarrow> if batch = [] then db else fst (save_to_database_swe raises batch db))"

section \<open>The orchestrator\<close>

text \<open>
  What a scraper hands to \<open>run_scraper\<close>: the data frame of one of the two
  sources \<open>master_scraper.py\<close> runs.
\<close>

datatype dataframe = GithubFrame "simplify_job list" | ZapplyFrame "zapply_job list"

fun frame_len :: "dataframe \<Rightarrow> nat" where
  "frame_len (GithubFrame rows) = length rows"
| "frame_len (ZapplyFrame rows) = length rows"

text \<open>
  The dictionary \<open>run_scraper\<close> returns, and the one \<open>main\<close> stores after an
  \<open>ImportError\<close>. The keys are \<open>success\<close>, \<open>jobs\<close>, \<open>time\<close>, \<open>data\<close> and \<open>error\<close>; a key
  the dictionary lacks is \<open>None\<close>, and so is the value \<open>None\<close> of \<open>data\<close>.
\<close>

record run_result =
  r_success :: bool
  r_jobs :: "nat option"
  r_time :: "rat option"
  r_data :: "dataframe option"
  r_error :: "error option"

text \<open>
  \<open>run_scraper\<close> (lines 14-37) on the outcome of \<open>scraper_function()\<close> and the time
  it took.
\<close>

definition run_scraper :: "error + dataframe option \<Rightarrow> rat \<Rightarrow> run_result" where
  "run_scraper outcome elapsed =
     (case outcome of
        Inl e \<Rightarrow>
          \<lparr>r_success = False, r_jobs = Some 0, r_time = Some 0, r_data = None, r_error = Some e\<rparr>
      | Inr result \<Rightarrow>
          (case result of
             None \<Rightarrow>
               \<lparr>r_success = False, r_jobs = Some 0, r_time = Some elapsed, r_data = None,
                r_error = None\<rparr>
           | Some df \<Rightarrow>
               if frame_len df > 0 then
                 \<lparr>r_success = True, r_jobs = Some (frame_len df), r_time = Some elapsed,
                  r_data = Some df, r_error = None\<rparr>
               else
                 \<lparr>r_success = False, r_jobs = Some 0, r_time = Some elapsed, r_data = None,
                  r_error = None\<rparr>))"

text \<open>Everything one run of \<open>main\<close> takes from outside.\<close>

record master_env =
  clock :: rat
  simplify_import_ok :: bool
  simplify_response :: "html_table list fetched"
  simplify_report_raises :: bool
  simplify_elapsed :: rat
  simplify_save_raises :: "db_step option"
  zapply_import_ok :: bool
  zapply_response :: "string fetched"
  zapply_report_raises :: bool
  zapply_elapsed :: rat
  zapply_save_raises :: "db_step option"

definition import_failed :: run_result where
  "import_failed =
     \<lparr>r_success = False, r_jobs = None, r_time = None, r_data = None, r_error = Some ImportFailed\<rparr>"

text \<open>Lines 54-63 and 65-74 of \<open>main\<close>: one source each, result and database.\<close>

definition run_simplify :: "master_env \<Rightarrow> database \<Rightarrow> run_result \<times> database" where
  "run_simplify env db =
     (if \<not> simplify_import_ok env then (import_failed, db)
      else
        (let outcome =
               (case scrape_simplify_jobs_github (clock env) (simplify_report_raises env)
                       (simplify_response env) of
                  Inl e \<Rightarrow> Inl e
                | Inr None \<Rightarrow> Inr None
                | Inr (Some rows) \<Rightarrow> Inr (Some (GithubFrame rows)));
             result = run_scraper outcome (simplify_elapsed env)
         in
         if r_success result \<and> r_data result \<noteq> None then
           (case r_data result of
              Some (GithubFrame rows) \<Rightarrow>
                (result, save_to_database_github (simplify_save_raises env) (Some rows) db)
            | _ \<Rightarrow> (result, db))
         else (result, db)))"

definition run_zapply :: "master_env \<Rightarrow> database \<Rightarrow> run_result \<times> database" where
  "run_zapply env db =
     (if \<not> zapply_import_ok env then (import_failed, db)
      else
        (let outcome =
               (case scrape_zapply_github (clock env) (zapply_report_raises env)
                       (zapply_response env) of
                  Inl e \<Rightarrow> Inl e
                | Inr None \<Rightarrow> Inr None
                | Inr (Some rows) \<Rightarrow> Inr (Some (ZapplyFrame rows)));
             result = run_scraper outcome (zapply_elapsed env)
         in
         if r_success result \<and> r_data result \<noteq> None then
           (case r_data result of
              Some (ZapplyFrame rows) \<Rightarrow>
                (result, save_to_database_zapply (zapply_save_raises env) (Some rows) db)
            | _ \<Rightarrow> (result, db))
         else (result, db)))"

text \<open>
  The summary of lines 86-103: the three totals and one line per entry of
  \<open>results\<close> (mark, name, jobs, time). The table counts printed after it read
  the database and change nothing.
\<close>

record summary =
  total_jobs :: nat
  total_time :: rat
  successful :: nat
  n_results :: nat
  breakdown :: "(bool \<times> string \<times> nat \<times> rat) list"

definition get_jobs :: "run_result \<Rightarrow> nat" where
  "get_jobs r = (case r_jobs r of None \<Rightarrow> 0 | Some n \<Rightarrow> n)"

definition get_time :: "run_result \<Rightarrow> rat" where
  "get_time r = (case r_time r of None \<Rightarrow> 0 | Some t \<Rightarrow> t)"

definition summarise :: "(string \<times> run_result) list \<Rightarrow> summary" where
  "summarise results =
     \<lparr>total_jobs = sum_list (map (\<lambda>(name, r). get_jobs r) results),
      total_time = sum_list (map (\<lambda>(name, r). get_time r) results),
      successful = length (filter (\<lambda>(name, r). r_success r) results),
      n_results = length results,
      breakdown = map (\<lambda>(name, r). (r_success r, name, get_jobs r, get_time r)) results\<rparr>"

text \<open>\<open>main\<close> (lines 39-134): \<open>results\<close> in insertion order, the printed summary, the database.\<close>

definition main :: "master_env \<Rightarrow> database \<Rightarrow> (string \<times> run_result) list \<times> summary \<times> database" where
  "main env db =
     (let (r1, db1) = run_simplify env db;
          (r2, db2) = run_zapply env db1;
          results = [(''simplify'', r1), (''zapply'', r2)]
      in (results, summarise results, db2))"

text \<open>Lines 136-143: the exit status.\<close>

definition exit_code :: "(string \<times> run_result) list \<Rightarrow> int" where
  "exit_code results = (if list_all (\<lambda>(name, r). \<not> r_success r) results then 1 else 0)"

text \<open>The whole process: what is printed as summary, the exit status, the database left behind.\<close>

definition master_scraper :: "master_env \<Rightarrow> database \<Rightarrow> summary \<times> int \<times> database" where
  "master_scraper env db =
     (let (results, printed, db') = main env db in (printed, exit_code results, db'))"

section \<open>Reference notions and sample inputs\<close>

text \<open>
  What every record of the Zapply parser satisfies: its derived fields are the
  functions of the fields they are computed from.
\<close>

definition zapply_job_ok :: "zapply_job \<Rightarrow> bool" where
  "zapply_job_ok job \<longleftrightarrow>
     is_faang job = zapply_is_faang (company job) \<and>
     is_tier1 job = zapply_is_tier1 (company job) \<and>
     job_type job = zapply_job_type (title job) \<and>
     freshness_score job = calculate_freshness_score (days_ago job)"

text \<open>
  The job type as the specification words it: a title containing \<open>intern\<close> or
  \<open>co-op\<close> is an internship, one containing \<open>contract\<close> a contract, any other
  full time.
\<close>

definition spec_job_type :: "string \<Rightarrow> string" where
  "spec_job_type ttl =
     (if sublist ''intern'' ttl \<or> sublist ''co-op'' ttl then ''internship''
      else if sublist ''contract'' ttl then ''contract''
      else ''fulltime'')"



text \<open>A Zapply document: one heading, the separator row of a table and one row.\<close>

definition zapply_doc :: "string \<Rightarrow> string \<Rightarrow> string \<Rightarrow> string" where
  "zapply_doc heading role posted =
     ''#### **'' @ heading @ ''** (1)'' @ [CHR 0x0A] @
     ''|---|---|---|---|---|---|'' @ [CHR 0x0A] @
     ''| '' @ role @ '' | NY | '' @ posted @ '' | Entry | SWE | [Apply](https://x/y) |''"

text \<open>The record the Zapply parser makes of this row on day 739923 (2026-11-03).\<close>

definition zapply_doc_job :: "string \<Rightarrow> string \<Rightarrow> string \<Rightarrow> rat option \<Rightarrow> int \<Rightarrow> int \<Rightarrow> bool \<Rightarrow>
    string \<Rightarrow> bool \<Rightarrow> bool \<Rightarrow> string \<Rightarrow> zapply_job" where
  "zapply_doc_job heading role posted age day score fresh jt faang tier1 tail =
     \<lparr>company = heading, title = role, location = ''NY'', posted_ago = posted,
      days_ago = age, date_posted = day, freshness_score = score, is_fresh = fresh,
      level = ''Entry'', category = ''SWE'', job_type = jt, is_faang = faang, is_tier1 = tier1,
      description =
        ''Entry position at '' @ heading @ '' in SWE. Posted '' @ posted @ ''. '' @ tail\<rparr>"

definition empty_db :: database where
  "empty_db = \<lparr>github_jobs = None, zapply_jobs = None, zapply_swe_2026_jobs = None\<rparr>"

text \<open>A Zapply SWE 2026 document of one row, and the record the parser makes of it.\<close>

definition swe_doc :: "string \<Rightarrow> string \<Rightarrow> string" where
  "swe_doc cname posted =
     ''| '' @ cname @ '' | SWE | Redmond | '' @ posted @ '' | [Apply](http://a/b) |''"

definition swe_doc_job :: "string \<Rightarrow> string \<Rightarrow> int + string \<Rightarrow> rat option \<Rightarrow> int \<Rightarrow> bool \<Rightarrow> swe_job" where
  "swe_doc_job cname posted day age score faang =
     \<lparr>swe_company = cname, swe_title = ''SWE'', swe_location = ''Redmond'', swe_date_posted = day,
      swe_posted_time_ago = posted, swe_days_ago = age, swe_freshness_score = score,
      swe_is_faang = faang, swe_is_archived = False\<rparr>"

text \<open>A SimplifyJobs document: one table of a header row and one row; and the record of the row.\<close>

definition simplify_tables :: "string \<Rightarrow> string \<Rightarrow> html_table list" where
  "simplify_tables cname role = [[[], [cname, role, ''NY'', ''Apply'', ''3d'']]]"

definition simplify_doc_job :: "string \<Rightarrow> string \<Rightarrow> bool \<Rightarrow> string \<Rightarrow> simplify_job" where
  "simplify_doc_job cname ttl faang descr =
     \<lparr>gh_company = cname, gh_title = ttl, gh_location = ''NY'', gh_age_posted = ''3d'',
      gh_age_days = Some 3, gh_requires_sponsorship = True, gh_requires_citizenship = False,
      gh_is_closed = False, gh_is_faang = faang, gh_requires_advanced_degree = False,
      gh_job_type = ''fulltime'', gh_description = descr, gh_date_posted = 739923\<rparr>"

text \<open>
  The inputs of an orchestrator run on day 739923 in which both imports work and
  no statistic raises; the responses of the two sources and the failing step of
  the Zapply writer are left open.
\<close>

definition sample_env ::
    "html_table list fetched \<Rightarrow> string fetched \<Rightarrow> db_step option \<Rightarrow> master_env" where
  "sample_env gresp zresp zraises =
     \<lparr>clock = 739923,
      simplify_import_ok = True, simplify_response = gresp, simplify_report_raises = False,
      simplify_elapsed = 30, simplify_save_raises = None,
      zapply_import_ok = True, zapply_response = zresp, zapply_report_raises = False,
      zapply_elapsed = 2, zapply_save_raises = zraises\<rparr>"

text \<open>A database in which every table already holds the rows of an earlier run.\<close>

definition stocked_db :: database where
  "stocked_db =
     \<lparr>github_jobs = Some [simplify_doc_job ''Acme'' ''Analyst'' False []],
      zapply_jobs = Some [zapply_doc_job ''Acme'' ''Analyst'' ''3d ago'' (Some 3) 739920 90 True
                           ''fulltime'' False False []],
      zapply_swe_2026_jobs = Some [swe_doc_job ''Acme'' ''2d ago'' (Inl 739921) (Some 2) 90 False]\<rparr>"

section \<open>Containment and the loop invariant of the Zapply parser\<close>

lemma startswith_prefix: "startswith s p \<longleftrightarrow> prefix p s"
  by (induction s p rule: startswith.induct) auto

lemma str_in_sublist: "str_in sub s \<longleftrightarrow> sublist sub s"
  by (induction s) (auto simp: startswith_prefix sublist_Cons_right)

lemma any_in_iff: "any_in subs s \<longleftrightarrow> (\<exists>sub \<in> set subs. sublist sub s)"
  by (simp add: any_in_def list_ex_iff str_in_sublist)

lemma str_in_single: "str_in [c] s \<longleftrightarrow> c \<in> set s"
  by (induction s) auto

lemma zapply_record_fields:
  assumes "zapply_record t cur cells = Inr (Some job)"
  shows "company job = cur \<and> title job = strip (cells ! 0) \<and>
         is_faang job = zapply_is_faang cur \<and> is_tier1 job = zapply_is_tier1 cur \<and>
         job_type job = zapply_job_type (strip (cells ! 0)) \<and>
         freshness_score job = calculate_freshness_score (days_ago job)"
  using assms
  by (auto simp: zapply_record_def Let_def split: if_splits sum.splits prod.splits)

lemma zapply_line_ok:
  assumes "zapply_line t st line = Inr st'" "list_all zapply_job_ok (jobs st)"
  shows "list_all zapply_job_ok (jobs st')"
  using assms zapply_record_fields
  by (auto simp: zapply_line_def Let_def zapply_job_ok_def split: if_splits option.splits sum.splits)

lemma zapply_lines_ok:
  "zapply_lines t st ls = Inr st' \<Longrightarrow> list_all zapply_job_ok (jobs st) \<Longrightarrow>
   list_all zapply_job_ok (jobs st')"
proof (induction ls arbitrary: st)
  case Nil
  then show ?case by simp
next
  case (Cons l ls)
  then show ?case by (auto split: sum.splits dest: zapply_line_ok)
qed

lemma scrape_zapply_ok:
  assumes "scrape_zapply_github t rr resp = Inr (Some batch)" "job \<in> set batch"
  shows "zapply_job_ok job"
proof -
  from assms(1) obtain md st where
    "zapply_lines t zapply_init (split_on (CHR 0x0A) md) = Inr st" "batch = jobs st"
    by (auto simp: scrape_zapply_github_def split: fetched.splits sum.splits if_splits)
  moreover have "list_all zapply_job_ok (jobs zapply_init)"
    by (simp add: zapply_init_def)
  ultimately have "list_all zapply_job_ok batch"
    using zapply_lines_ok by blast
  with assms(2) show ?thesis by (simp add: list_all_iff)
qed

lemma excluded_not_matched:
  "\<forall>c \<in> set excluded_companies. \<not> zapply_is_faang c \<and> \<not> zapply_is_tier1 c"
  by code_simp

section \<open>Claims\<close>


text \<open>
  C2. \<open>calculate_freshness_score\<close> is the step function of the age in days:
  below 1 it is 100, from 1 to below 7 it is 90, from 7 to below 14 it is 75,
  from 14 to below 30 it is 60, from 30 to below 60 it is 40, from 60 on it is
  20, and 50 for no age. The score always lies in 0..100, and an age on a
  boundary takes the lower score: exactly 1 gives 90, exactly 7 gives 75
  (0.999 gives 100, 6.999 gives 90).
\<close>

theorem freshness_score_steps:
  "(a < 1 \<longrightarrow> calculate_freshness_score (Some a) = 100) \<and>
   (1 \<le> a \<and> a < 7 \<longrightarrow> calculate_freshness_score (Some a) = 90) \<and>
   (7 \<le> a \<and> a < 14 \<longrightarrow> calculate_freshness_score (Some a) = 75) \<and>
   (14 \<le> a \<and> a < 30 \<longrightarrow> calculate_freshness_score (Some a) = 60) \<and>
   (30 \<le> a \<and> a < 60 \<longrightarrow> calculate_freshness_score (Some a) = 40) \<and>
   (60 \<le> a \<longrightarrow> calculate_freshness_score (Some a) = 20) \<and>
   calculate_freshness_score None = 50 \<and>
   0 \<le> calculate_freshness_score d \<and> calculate_freshness_score d \<le> 100 \<and>
   calculate_freshness_score (Some 1) = 90 \<and>
   calculate_freshness_score (Some 7) = 75 \<and>
   calculate_freshness_score (Some (999 / 1000)) = 100 \<and>
   calculate_freshness_score (Some (6999 / 1000)) = 90"
  by (auto simp: calculate_freshness_score_def split: option.splits)

theorem freshness_score_steps_witness:
  "calculate_freshness_score (Some (1 / 2)) = 100 \<and>
   calculate_freshness_score (Some 3) = 90 \<and>
   calculate_freshness_score (Some 10) = 75 \<and>
   calculate_freshness_score (Some 14) = 60 \<and>
   calculate_freshness_score (Some 45) = 40 \<and>
   calculate_freshness_score (Some 60) = 20"
  using freshness_score_steps [of "1 / 2"] freshness_score_steps [of 3]
    freshness_score_steps [of 10] freshness_score_steps [of 14]
    freshness_score_steps [of 45] freshness_score_steps [of 60]
  by simp

text \<open>
  C10. In the Zapply parser the one-letter string \<open>x\<close> is an entry of the Tier-1
  list and membership is tested by containment in the lower-cased heading, so
  every record made under a heading whose lower-cased name has the letter \<open>x\<close>
  anywhere (FedEx, Equifax) is tagged \<open>is_tier1\<close>.
\<close>

theorem letter_x_makes_tier1:
  assumes "scrape_zapply_github t rr resp = Inr (Some batch)"
    and "job \<in> set batch"
    and "CHR ''x'' \<in> set (lower (company job))"
  shows "is_tier1 job \<and> ''x'' \<in> set tier1_companies"
proof -
  have "zapply_job_ok job"
    using assms(1,2) by (rule scrape_zapply_ok)
  then have "is_tier1 job = any_in tier1_companies (lower (company job))"
    by (simp add: zapply_job_ok_def zapply_is_tier1_def)
  moreover have x: "''x'' \<in> set tier1_companies"
    by (simp add: tier1_companies_def)
  moreover have "str_in ''x'' (lower (company job))"
    using assms(3) by (simp add: str_in_single)
  ultimately show ?thesis
    by (auto simp: any_in_def list_ex_iff)
qed

theorem letter_x_makes_tier1_witness:
  "is_tier1 (zapply_doc_job ''FedEx'' ''Software Engineer'' ''3d ago'' (Some 3) 739920 90 True
        ''fulltime'' False True ''Top-tier tech company. '') \<and>
   ''x'' \<in> set tier1_companies"
proof -
  let ?job = "zapply_doc_job ''FedEx'' ''Software Engineer'' ''3d ago'' (Some 3) 739920 90 True
        ''fulltime'' False True ''Top-tier tech company. ''"
  have run: "scrape_zapply_github 739923 False
      (Fetched (zapply_doc ''FedEx'' ''Software Engineer'' ''3d ago'')) = Inr (Some [?job])"
    by code_simp
  have mem: "?job \<in> set [?job]" by simp
  have x: "CHR ''x'' \<in> set (lower (company ?job))"
    by code_simp
  show ?thesis
    by (rule letter_x_makes_tier1 [OF run mem x])
qed

lemma swe_line_keeps:
  assumes "list_all (\<lambda>j. swe_is_faang j = swe_company_is_faang (swe_company j)) (swe_jobs st)"
  shows "list_all (\<lambda>j. swe_is_faang j = swe_company_is_faang (swe_company j))
           (swe_jobs (swe_line t st line))"
  using assms
  by (auto simp: swe_line_def swe_record_def Let_def split: option.splits sum.splits prod.splits)

lemma swe_lines_keep:
  "list_all (\<lambda>j. swe_is_faang j = swe_company_is_faang (swe_company j)) (swe_jobs st) \<Longrightarrow>
   list_all (\<lambda>j. swe_is_faang j = swe_company_is_faang (swe_company j))
     (swe_jobs (foldl (swe_line t) st ls))"
  by (induction ls arbitrary: st) (simp_all add: swe_line_keeps)

lemma scrape_swe_faang:
  assumes "scrape_zapply_swe_2026 t rr resp = Inr (Some batch)" "job \<in> set batch"
  shows "swe_is_faang job = swe_company_is_faang (swe_company job)"
proof -
  from assms(1) obtain md where
    "batch = swe_jobs (foldl (swe_line t) swe_init (split_on (CHR 0x0A) md))"
    by (auto simp: scrape_zapply_swe_2026_def Let_def split: fetched.splits if_splits)
  moreover have "list_all (\<lambda>j. swe_is_faang j = swe_company_is_faang (swe_company j))
      (swe_jobs swe_init)"
    by (simp add: swe_init_def)
  ultimately have "list_all (\<lambda>j. swe_is_faang j = swe_company_is_faang (swe_company j)) batch"
    using swe_lines_keep by blast
  with assms(2) show ?thesis by (simp add: list_all_iff)
qed

lemma simplify_record_fields:
  "simplify_record t row = Some j \<Longrightarrow>
   gh_company j = row ! 0 \<and> gh_is_faang j = sublist emoji_fire (row ! 1) \<and>
   gh_job_type j = ''fulltime''"
  by (auto simp: simplify_record_def Let_def str_in_sublist split: if_splits)

lemma map_filter_mem: "y \<in> set (List.map_filter f xs) \<Longrightarrow> \<exists>x \<in> set xs. f x = Some y"
  by (auto simp: map_filter_def)

lemma scrape_simplify_rows:
  assumes "scrape_simplify_jobs_github t rr (Fetched (tbl # others)) = Inr (Some batch)"
    and "j \<in> set batch"
  shows "\<exists>row \<in> set (drop 1 tbl). simplify_record t row = Some j"
proof -
  from assms(1) have "batch = List.map_filter (simplify_record t) (drop 1 tbl)"
    by (simp add: scrape_simplify_jobs_github_def Let_def split: if_splits)
  with assms(2) show ?thesis
    using map_filter_mem by fastforce
qed

text \<open>
  C4, as the code has it. In the Zapply parser the job type follows the
  lower-cased title: \<open>intern\<close>, \<open>co-op\<close> or \<open>coop\<close> gives \<open>internship\<close>, else
  \<open>contract\<close> gives \<open>contract\<close>, else \<open>fulltime\<close>. The SimplifyJobs parser gives
  every record the job type \<open>fulltime\<close>. (The records of the SWE 2026 parser
  have no job type.)
\<close>

theorem job_type_by_source:
  "(scrape_zapply_github t rr resp = Inr (Some batch) \<and> job \<in> set batch \<longrightarrow>
      job_type job =
        (if sublist ''intern'' (lower (title job)) \<or> sublist ''co-op'' (lower (title job)) \<or>
            sublist ''coop'' (lower (title job)) then ''internship''
         else if sublist ''contract'' (lower (title job)) then ''contract''
         else ''fulltime'')) \<and>
   (scrape_simplify_jobs_github t rr (Fetched (tbl # others)) = Inr (Some gbatch) \<and>
      gjob \<in> set gbatch \<longrightarrow> gh_job_type gjob = ''fulltime'')"
proof (intro conjI impI)
  assume "scrape_zapply_github t rr resp = Inr (Some batch) \<and> job \<in> set batch"
  then have "zapply_job_ok job"
    using scrape_zapply_ok by blast
  then have "job_type job = zapply_job_type (title job)"
    by (simp add: zapply_job_ok_def)
  then show "job_type job =
        (if sublist ''intern'' (lower (title job)) \<or> sublist ''co-op'' (lower (title job)) \<or>
            sublist ''coop'' (lower (title job)) then ''internship''
         else if sublist ''contract'' (lower (title job)) then ''contract''
         else ''fulltime'')"
    by (simp add: zapply_job_type_def Let_def str_in_sublist)
next
  assume "scrape_simplify_jobs_github t rr (Fetched (tbl # others)) = Inr (Some gbatch) \<and>
      gjob \<in> set gbatch"
  then obtain row where "simplify_record t row = Some gjob"
    using scrape_simplify_rows by blast
  then show "gh_job_type gjob = ''fulltime''"
    by (simp add: simplify_record_fields)
qed

theorem job_type_by_source_witness:
  "job_type (zapply_doc_job ''Acme'' ''Contract Engineer'' ''3d ago'' (Some 3) 739920 90 True
      ''contract'' False False []) = ''contract'' \<and>
   gh_job_type (simplify_doc_job ''Acme'' ''software intern'' False
      ''New graduate position at Acme. Visa sponsorship may be available. '') = ''fulltime''"
proof -
  let ?job = "zapply_doc_job ''Acme'' ''Contract Engineer'' ''3d ago'' (Some 3) 739920 90 True
      ''contract'' False False []"
  let ?gjob = "simplify_doc_job ''Acme'' ''software intern'' False
      ''New graduate position at Acme. Visa sponsorship may be available. ''"
  have run: "scrape_zapply_github 739923 False
      (Fetched (zapply_doc ''Acme'' ''Contract Engineer'' ''3d ago'')) = Inr (Some [?job])"
    by code_simp
  have grun: "scrape_simplify_jobs_github 739923 False
      (Fetched ([[], [''Acme'', ''software intern'', ''NY'', ''Apply'', ''3d'']] # [])) =
      Inr (Some [?gjob])"
    by code_simp
  have ttl: "lower (title ?job) = ''contract engineer''"
    by code_simp
  have no: "\<not> sublist ''intern'' ''contract engineer'' \<and> \<not> sublist ''co-op'' ''contract engineer'' \<and>
      \<not> sublist ''coop'' ''contract engineer'' \<and> sublist ''contract'' ''contract engineer''"
    by code_simp
  show ?thesis
    using job_type_by_source [of 739923 False
        "Fetched (zapply_doc ''Acme'' ''Contract Engineer'' ''3d ago'')" "[?job]" ?job
        "[[], [''Acme'', ''software intern'', ''NY'', ''Apply'', ''3d'']]" "[]" "[?gjob]" ?gjob]
      run grun ttl no
    by simp
qed

theorem job_type_counterexample:
  "map_sum id (map_option (map title))
     (scrape_zapply_github 739923 False (Fetched (zapply_doc ''Acme'' ''software coop'' ''3d ago'')))
     = Inr (Some [''software coop'']) \<and>
   map_sum id (map_option (map job_type))
     (scrape_zapply_github 739923 False (Fetched (zapply_doc ''Acme'' ''software coop'' ''3d ago'')))
     = Inr (Some [''internship'']) \<and>
   spec_job_type ''software coop'' = ''fulltime'' \<and>
   map_sum id (map_option (map gh_title))
     (scrape_simplify_jobs_github 739923 False (Fetched (simplify_tables ''Acme'' ''software intern'')))
     = Inr (Some [''software intern'']) \<and>
   map_sum id (map_option (map gh_job_type))
     (scrape_simplify_jobs_github 739923 False (Fetched (simplify_tables ''Acme'' ''software intern'')))
     = Inr (Some [''fulltime'']) \<and>
   spec_job_type ''software intern'' = ''internship''"
  by code_simp

text \<open>
  C5, as the code has it. The Zapply parser sets \<open>is_faang\<close> exactly when the
  lower-cased heading contains one of its seven entries (google, amazon, apple,
  meta, facebook, microsoft, netflix). The SWE 2026 parser tests the lower-cased
  company cell against six entries, the seven without \<open>microsoft\<close>. The
  SimplifyJobs parser does not read the company: \<open>is_faang\<close> is set exactly when
  the role cell carries the fire marker.
\<close>

theorem is_faang_by_source:
  "(scrape_zapply_github t rr resp = Inr (Some batch) \<and> job \<in> set batch \<longrightarrow>
      is_faang job = (\<exists>e \<in> set faang_companies. sublist e (lower (company job)))) \<and>
   length faang_companies = 7 \<and>
   (scrape_zapply_swe_2026 t rr resp = Inr (Some sbatch) \<and> sjob \<in> set sbatch \<longrightarrow>
      swe_is_faang sjob = (\<exists>e \<in> set swe_faang_companies. sublist e (lower (swe_company sjob)))) \<and>
   length swe_faang_companies = 6 \<and>
   set swe_faang_companies = set faang_companies - {''microsoft''} \<and>
   (scrape_simplify_jobs_github t rr (Fetched (tbl # others)) = Inr (Some gbatch) \<and>
      gjob \<in> set gbatch \<longrightarrow>
      (\<exists>row \<in> set (drop 1 tbl). simplify_record t row = Some gjob \<and>
         gh_company gjob = row ! 0 \<and> gh_is_faang gjob = sublist emoji_fire (row ! 1)))"
proof (intro conjI impI)
  assume "scrape_zapply_github t rr resp = Inr (Some batch) \<and> job \<in> set batch"
  then have "zapply_job_ok job"
    using scrape_zapply_ok by blast
  then show "is_faang job = (\<exists>e \<in> set faang_companies. sublist e (lower (company job)))"
    by (simp add: zapply_job_ok_def zapply_is_faang_def any_in_iff)
next
  show "length faang_companies = 7"
    by (simp add: faang_companies_def)
next
  assume "scrape_zapply_swe_2026 t rr resp = Inr (Some sbatch) \<and> sjob \<in> set sbatch"
  then have "swe_is_faang sjob = swe_company_is_faang (swe_company sjob)"
    using scrape_swe_faang by blast
  then show "swe_is_faang sjob =
      (\<exists>e \<in> set swe_faang_companies. sublist e (lower (swe_company sjob)))"
    by (simp add: swe_company_is_faang_def any_in_iff)
next
  show "length swe_faang_companies = 6"
    by (simp add: swe_faang_companies_def)
next
  show "set swe_faang_companies = set faang_companies - {''microsoft''}"
    by (auto simp: swe_faang_companies_def faang_companies_def)
next
  assume "scrape_simplify_jobs_github t rr (Fetched (tbl # others)) = Inr (Some gbatch) \<and>
      gjob \<in> set gbatch"
  then obtain row where "row \<in> set (drop 1 tbl)" "simplify_record t row = Some gjob"
    using scrape_simplify_rows by blast
  then show "\<exists>row \<in> set (drop 1 tbl). simplify_record t row = Some gjob \<and>
         gh_company gjob = row ! 0 \<and> gh_is_faang gjob = sublist emoji_fire (row ! 1)"
    using simplify_record_fields by blast
qed

theorem is_faang_by_source_witness:
  "is_faang (zapply_doc_job ''Google'' ''Software Engineer'' ''3d ago'' (Some 3) 739920 90 True
      ''fulltime'' True False ''FAANG company. '') \<and>
   \<not> swe_is_faang (swe_doc_job ''Microsoft'' ''2d ago'' (Inl 739921) (Some 2) 90 False) \<and>
   gh_is_faang (simplify_doc_job ''Acme'' ''Analyst'' True
      ''New graduate position at Acme. FAANG company. Visa sponsorship may be available. '')"
proof -
  let ?job = "zapply_doc_job ''Google'' ''Software Engineer'' ''3d ago'' (Some 3) 739920 90 True
      ''fulltime'' True False ''FAANG company. ''"
  let ?sjob = "swe_doc_job ''Microsoft'' ''2d ago'' (Inl 739921) (Some 2) 90 False"
  let ?gjob = "simplify_doc_job ''Acme'' ''Analyst'' True
      ''New graduate position at Acme. FAANG company. Visa sponsorship may be available. ''"
  let ?row = "[''Acme'', ''Analyst'' @ emoji_fire, ''NY'', ''Apply'', ''3d'']"
  have run: "scrape_zapply_github 739923 False
      (Fetched (zapply_doc ''Google'' ''Software Engineer'' ''3d ago'')) = Inr (Some [?job])"
    by code_simp
  have srun: "scrape_zapply_swe_2026 739923 False (Fetched (swe_doc ''Microsoft'' ''2d ago'')) =
      Inr (Some [?sjob])"
    by code_simp
  have grun: "scrape_simplify_jobs_github 739923 False (Fetched ([[], ?row] # [])) =
      Inr (Some [?gjob])"
    by code_simp
  have z: "\<exists>e \<in> set faang_companies. sublist e (lower (company ?job))"
    by code_simp
  have s: "\<not> (\<exists>e \<in> set swe_faang_companies. sublist e (lower (swe_company ?sjob)))"
    by code_simp
  have g: "sublist emoji_fire (?row ! 1)"
    by code_simp
  have zc: "is_faang ?job = (\<exists>e \<in> set faang_companies. sublist e (lower (company ?job)))"
    using is_faang_by_source [of 739923 False
        "Fetched (zapply_doc ''Google'' ''Software Engineer'' ''3d ago'')" "[?job]" ?job] run
    by simp
  have sc: "swe_is_faang ?sjob =
      (\<exists>e \<in> set swe_faang_companies. sublist e (lower (swe_company ?sjob)))"
    using is_faang_by_source [of 739923 False "Fetched (swe_doc ''Microsoft'' ''2d ago'')"
        _ _ "[?sjob]" ?sjob] srun
    by simp
  have gc: "\<exists>row \<in> set (drop 1 [[], ?row]). simplify_record 739923 row = Some ?gjob \<and>
      gh_company ?gjob = row ! 0 \<and> gh_is_faang ?gjob = sublist emoji_fire (row ! 1)"
    using is_faang_by_source [of 739923 False _ _ _ _ _ "[[], ?row]" "[]" "[?gjob]" ?gjob] grun
    by simp
  then have "gh_is_faang ?gjob = sublist emoji_fire (?row ! 1)"
    by simp
  with zc sc z s g show ?thesis
    by blast
qed

theorem is_faang_counterexample:
  "map_sum id (map_option (map swe_company))
     (scrape_zapply_swe_2026 739923 False (Fetched (swe_doc ''Microsoft'' ''2d ago'')))
     = Inr (Some [''Microsoft'']) \<and>
   map_sum id (map_option (map swe_is_faang))
     (scrape_zapply_swe_2026 739923 False (Fetched (swe_doc ''Microsoft'' ''2d ago'')))
     = Inr (Some [False]) \<and>
   any_in faang_companies (lower ''Microsoft'') \<and>
   map_sum id (map_option (map gh_company))
     (scrape_simplify_jobs_github 739923 False
        (Fetched [[[], [''Acme'', ''Analyst'' @ emoji_fire, ''NY'', ''Apply'', ''3d''],
                   [''Acme'', ''Tester'', ''NY'', ''Apply'', ''3d'']]]))
     = Inr (Some [''Acme'', ''Acme'']) \<and>
   map_sum id (map_option (map gh_is_faang))
     (scrape_simplify_jobs_github 739923 False
        (Fetched [[[], [''Acme'', ''Analyst'' @ emoji_fire, ''NY'', ''Apply'', ''3d''],
                   [''Acme'', ''Tester'', ''NY'', ''Apply'', ''3d'']]]))
     = Inr (Some [True, False])"
  by code_simp

lemma run_simplify_unchanged:
  "run_simplify env db = (r, db') \<Longrightarrow> \<not> r_success r \<Longrightarrow> db' = db"
  by (auto simp: run_simplify_def Let_def split: if_splits option.splits dataframe.splits)

lemma run_zapply_unchanged:
  "run_zapply env db = (r, db') \<Longrightarrow> \<not> r_success r \<Longrightarrow> db' = db"
  by (auto simp: run_zapply_def Let_def split: if_splits option.splits dataframe.splits)

lemma run_simplify_other_tables:
  "run_simplify env db = (r, db') \<Longrightarrow>
   zapply_jobs db' = zapply_jobs db \<and> zapply_swe_2026_jobs db' = zapply_swe_2026_jobs db"
  by (auto simp: run_simplify_def save_to_database_github_def Let_def
      split: if_splits option.splits dataframe.splits)

lemma run_zapply_other_tables:
  "run_zapply env db = (r, db') \<Longrightarrow>
   github_jobs db' = github_jobs db \<and> zapply_swe_2026_jobs db' = zapply_swe_2026_jobs db"
  by (auto simp: run_zapply_def save_to_database_zapply_def Let_def
      split: if_splits option.splits dataframe.splits)

lemma main_unfold:
  "main env db =
     ([(''simplify'', fst (run_simplify env db)),
       (''zapply'', fst (run_zapply env (snd (run_simplify env db))))],
      summarise [(''simplify'', fst (run_simplify env db)),
                 (''zapply'', fst (run_zapply env (snd (run_simplify env db))))],
      snd (run_zapply env (snd (run_simplify env db))))"
  by (simp add: main_def Let_def split: prod.splits)

text \<open>
  C9. A run of the orchestrator exits with 0 when at least one of its sources
  succeeded and with 1 when every source failed; either way the summary has
  been produced, and its breakdown has one line for each configured source
  (\<open>simplify\<close>, \<open>zapply\<close>) with that source's outcome.
\<close>

theorem exit_status_and_summary:
  assumes "main env db = (results, printed, db')"
  shows "master_scraper env db =
           (printed, (if \<exists>r \<in> snd ` set results. r_success r then 0 else 1), db') \<and>
         map fst results = [''simplify'', ''zapply''] \<and>
         map (\<lambda>(mark, name, n, tm). (name, mark)) (breakdown printed) =
           map (\<lambda>(name, r). (name, r_success r)) results"
proof -
  have code: "exit_code results = (if \<exists>r \<in> snd ` set results. r_success r then 0 else 1)"
    by (fastforce simp: exit_code_def list_all_iff)
  have res: "results = [(''simplify'', fst (run_simplify env db)),
       (''zapply'', fst (run_zapply env (snd (run_simplify env db))))]"
    and pr: "printed = summarise results"
    using assms by (auto simp: main_unfold)
  have "master_scraper env db = (printed, exit_code results, db')"
    using assms by (simp add: master_scraper_def)
  moreover have "map fst results = [''simplify'', ''zapply'']"
    using res by simp
  moreover have "map (\<lambda>(mark, name, n, tm). (name, mark)) (breakdown printed) =
           map (\<lambda>(name, r). (name, r_success r)) results"
    unfolding pr by (simp add: summarise_def case_prod_beta)
  ultimately show ?thesis
    using code by simp
qed

theorem exit_status_and_summary_witness:
  "fst (snd (master_scraper
      (sample_env FetchFailed (Fetched (zapply_doc ''Acme'' ''Software Engineer'' ''3d ago'')) None)
      empty_db)) = 0 \<and>
   fst (snd (master_scraper (sample_env FetchFailed FetchFailed None) empty_db)) = 1 \<and>
   map fst (fst (main (sample_env FetchFailed FetchFailed None) empty_db)) =
     [''simplify'', ''zapply'']"
proof -
  let ?one = "sample_env FetchFailed
      (Fetched (zapply_doc ''Acme'' ''Software Engineer'' ''3d ago'')) None"
  let ?none = "sample_env FetchFailed FetchFailed None"
  have a: "main ?one empty_db =
      (fst (main ?one empty_db), fst (snd (main ?one empty_db)), snd (snd (main ?one empty_db)))"
    by simp
  have b: "main ?none empty_db =
      (fst (main ?none empty_db), fst (snd (main ?none empty_db)), snd (snd (main ?none empty_db)))"
    by simp
  have ok: "\<exists>r \<in> snd ` set (fst (main ?one empty_db)). r_success r"
    by code_simp
  have ko: "\<not> (\<exists>r \<in> snd ` set (fst (main ?none empty_db)). r_success r)"
    by code_simp
  from exit_status_and_summary [OF a] ok
  have "fst (snd (master_scraper ?one empty_db)) = 0"
    by simp
  moreover from exit_status_and_summary [OF b] ko
  have "fst (snd (master_scraper ?none empty_db)) = 1"
    and "map fst (fst (main ?none empty_db)) = [''simplify'', ''zapply'']"
    by simp_all
  ultimately show ?thesis
    by simp
qed

text \<open>
  C6. Two successful writes in a row of the batches B1 and then B2 leave in the
  source's table exactly the rows of B2, in each of the three writers: the
  rows of B1 are deleted before B2 is inserted, so when the batches are
  disjoint no row of B1 survives.
\<close>

theorem snapshot_replace:
  assumes "G1 \<noteq> []" "G2 \<noteq> []" "set G1 \<inter> set G2 = {}"
    and "Z1 \<noteq> []" "Z2 \<noteq> []" "set Z1 \<inter> set Z2 = {}"
    and "set S1 \<inter> set S2 = {}"
  shows
    "(\<exists>rows. github_jobs (save_to_database_github None (Some G2)
                 (save_to_database_github None (Some G1) db)) = Some rows \<and>
        rows = G2 \<and> (\<forall>r \<in> set G1. r \<notin> set rows)) \<and>
     (\<exists>rows. zapply_jobs (save_to_database_zapply None (Some Z2)
                 (save_to_database_zapply None (Some Z1) db)) = Some rows \<and>
        rows = Z2 \<and> (\<forall>r \<in> set Z1. r \<notin> set rows)) \<and>
     (\<exists>rows. zapply_swe_2026_jobs (fst (save_to_database_swe None S2
                 (fst (save_to_database_swe None S1 db)))) = Some rows \<and>
        rows = S2 \<and> (\<forall>r \<in> set S1. r \<notin> set rows))"
proof (intro conjI)
  show "\<exists>rows. github_jobs (save_to_database_github None (Some G2)
                 (save_to_database_github None (Some G1) db)) = Some rows \<and>
        rows = G2 \<and> (\<forall>r \<in> set G1. r \<notin> set rows)"
    using assms(1-3) by (auto simp: save_to_database_github_def Let_def)
next
  show "\<exists>rows. zapply_jobs (save_to_database_zapply None (Some Z2)
                 (save_to_database_zapply None (Some Z1) db)) = Some rows \<and>
        rows = Z2 \<and> (\<forall>r \<in> set Z1. r \<notin> set rows)"
    using assms(4-6) by (auto simp: save_to_database_zapply_def Let_def)
next
  show "\<exists>rows. zapply_swe_2026_jobs (fst (save_to_database_swe None S2
                 (fst (save_to_database_swe None S1 db)))) = Some rows \<and>
        rows = S2 \<and> (\<forall>r \<in> set S1. r \<notin> set rows)"
    using assms(7) by (auto simp: save_to_database_swe_def Let_def)
qed

theorem snapshot_replace_witness:
  "github_jobs (save_to_database_github None (Some [simplify_doc_job ''Beta'' ''Tester'' False []])
       (save_to_database_github None (Some [simplify_doc_job ''Acme'' ''Analyst'' False []]) empty_db))
     = Some [simplify_doc_job ''Beta'' ''Tester'' False []] \<and>
   zapply_jobs (save_to_database_zapply None
         (Some [zapply_doc_job ''Beta'' ''Tester'' ''1d ago'' (Some 1) 739922 90 True ''fulltime'' False False []])
       (save_to_database_zapply None
         (Some [zapply_doc_job ''Acme'' ''Analyst'' ''3d ago'' (Some 3) 739920 90 True ''fulltime'' False False []])
         empty_db))
     = Some [zapply_doc_job ''Beta'' ''Tester'' ''1d ago'' (Some 1) 739922 90 True ''fulltime'' False False []] \<and>
   zapply_swe_2026_jobs (fst (save_to_database_swe None
         [swe_doc_job ''Beta'' ''1d ago'' (Inl 739922) (Some 1) 90 False]
       (fst (save_to_database_swe None
         [swe_doc_job ''Acme'' ''2d ago'' (Inl 739921) (Some 2) 90 False] empty_db))))
     = Some [swe_doc_job ''Beta'' ''1d ago'' (Inl 739922) (Some 1) 90 False]"
proof -
  let ?g1 = "simplify_doc_job ''Acme'' ''Analyst'' False []"
  let ?g2 = "simplify_doc_job ''Beta'' ''Tester'' False []"
  let ?z1 = "zapply_doc_job ''Acme'' ''Analyst'' ''3d ago'' (Some 3) 739920 90 True ''fulltime'' False False []"
  let ?z2 = "zapply_doc_job ''Beta'' ''Tester'' ''1d ago'' (Some 1) 739922 90 True ''fulltime'' False False []"
  let ?s1 = "swe_doc_job ''Acme'' ''2d ago'' (Inl 739921) (Some 2) 90 False"
  let ?s2 = "swe_doc_job ''Beta'' ''1d ago'' (Inl 739922) (Some 1) 90 False"
  have g: "set [?g1] \<inter> set [?g2] = {}"
    by (simp add: simplify_doc_job_def)
  have z: "set [?z1] \<inter> set [?z2] = {}"
    by (simp add: zapply_doc_job_def)
  have s: "set [?s1] \<inter> set [?s2] = {}"
    by (simp add: swe_doc_job_def)
  have n: "[?g1] \<noteq> []" "[?g2] \<noteq> []" "[?z1] \<noteq> []" "[?z2] \<noteq> []"
    by simp_all
  show ?thesis
    using snapshot_replace [OF n(1) n(2) g n(3) n(4) z s, of empty_db]
    by simp
qed

lemma scrape_zapply_failed:
  "resp = FetchFailed \<or>
   (\<exists>md e. resp = Fetched md \<and> zapply_lines t zapply_init (split_on (CHR 0x0A) md) = Inl e) \<or>
   (\<exists>md st. resp = Fetched md \<and> zapply_lines t zapply_init (split_on (CHR 0x0A) md) = Inr st \<and>
      jobs st = []) \<Longrightarrow>
   scrape_zapply_github t rr resp = Inr None"
  by (auto simp: scrape_zapply_github_def)

lemma scrape_simplify_failed:
  "resp = FetchFailed \<or> resp = Fetched [] \<or>
   (\<exists>tbl others. resp = Fetched (tbl # others) \<and>
      List.map_filter (simplify_record t) (drop 1 tbl) = []) \<Longrightarrow>
   scrape_simplify_jobs_github t rr resp = Inr None"
  by (auto simp: scrape_simplify_jobs_github_def)

lemma run_zapply_no_batch:
  "scrape_zapply_github (clock env) (zapply_report_raises env) (zapply_response env) = Inr None \<Longrightarrow>
   \<not> r_success (fst (run_zapply env db)) \<and> snd (run_zapply env db) = db"
  by (simp add: run_zapply_def run_scraper_def import_failed_def)

lemma run_simplify_no_batch:
  "scrape_simplify_jobs_github (clock env) (simplify_report_raises env) (simplify_response env)
     = Inr None \<Longrightarrow>
   \<not> r_success (fst (run_simplify env db)) \<and> snd (run_simplify env db) = db"
  by (simp add: run_simplify_def run_scraper_def import_failed_def)

lemma main_tables:
  assumes "main env db = (results, printed, db')"
  shows "results = [(''simplify'', fst (run_simplify env db)),
                    (''zapply'', fst (run_zapply env (snd (run_simplify env db))))]"
    and "\<not> r_success (fst (run_simplify env db)) \<Longrightarrow> github_jobs db' = github_jobs db"
    and "\<not> r_success (fst (run_zapply env (snd (run_simplify env db)))) \<Longrightarrow>
         zapply_jobs db' = zapply_jobs db"
    and "zapply_swe_2026_jobs db' = zapply_swe_2026_jobs db"
proof -
  obtain r1 db1 where s: "run_simplify env db = (r1, db1)"
    by (cases "run_simplify env db")
  obtain r2 db2 where z: "run_zapply env db1 = (r2, db2)"
    by (cases "run_zapply env db1")
  from assms s z have eq: "results = [(''simplify'', r1), (''zapply'', r2)]" "db' = db2"
    by (auto simp: main_unfold)
  show "results = [(''simplify'', fst (run_simplify env db)),
                    (''zapply'', fst (run_zapply env (snd (run_simplify env db))))]"
    using eq s z by simp
  show "github_jobs db' = github_jobs db" if "\<not> r_success (fst (run_simplify env db))"
    using that s z eq run_simplify_unchanged [OF s] run_zapply_other_tables [OF z] by simp
  show "zapply_jobs db' = zapply_jobs db"
    if "\<not> r_success (fst (run_zapply env (snd (run_simplify env db))))"
    using that s z eq run_zapply_unchanged [OF z] run_simplify_other_tables [OF s] by simp
  show "zapply_swe_2026_jobs db' = zapply_swe_2026_jobs db"
    using s z eq run_zapply_other_tables [OF z] run_simplify_other_tables [OF s] by simp
qed

text \<open>
  C7. A source whose run fails before a write leaves its table as it was.
  In the orchestrator: when the result of a source is not a success, the table
  of that source after the run is its table before the run; and a failed fetch,
  an exception while parsing, a document without a table and an empty batch
  each give such a result. The same holds for the stand-alone run of the SWE
  2026 scraper, and each writer returns at once on no batch or an empty one.
\<close>

theorem failed_run_keeps_snapshot:
  assumes "main env db = (results, printed, db')"
  shows
    "((nm, r) \<in> set results \<and> \<not> r_success r \<longrightarrow>
        (nm = ''simplify'' \<longrightarrow> github_jobs db' = github_jobs db) \<and>
        (nm = ''zapply'' \<longrightarrow> zapply_jobs db' = zapply_jobs db)) \<and>
     (zapply_response env = FetchFailed \<longrightarrow> zapply_jobs db' = zapply_jobs db) \<and>
     (zapply_response env = Fetched md \<and>
        zapply_lines (clock env) zapply_init (split_on (CHR 0x0A) md) = Inl e \<longrightarrow>
        zapply_jobs db' = zapply_jobs db) \<and>
     (zapply_response env = Fetched md \<and>
        zapply_lines (clock env) zapply_init (split_on (CHR 0x0A) md) = Inr st \<and> jobs st = [] \<longrightarrow>
        zapply_jobs db' = zapply_jobs db) \<and>
     (simplify_response env = FetchFailed \<longrightarrow> github_jobs db' = github_jobs db) \<and>
     (simplify_response env = Fetched [] \<longrightarrow> github_jobs db' = github_jobs db) \<and>
     (simplify_response env = Fetched (tbl # others) \<and>
        List.map_filter (simplify_record (clock env)) (drop 1 tbl) = [] \<longrightarrow>
        github_jobs db' = github_jobs db) \<and>
     swe_main t rr FetchFailed raises db = db \<and>
     (swe_jobs (foldl (swe_line t) swe_init (split_on (CHR 0x0A) md)) = [] \<longrightarrow>
        swe_main t rr (Fetched md) raises db = db) \<and>
     save_to_database_github raises None db = db \<and>
     save_to_database_github raises (Some []) db = db \<and>
     save_to_database_zapply raises None db = db \<and>
     save_to_database_zapply raises (Some []) db = db"
proof -
  note m = main_tables [OF assms]
  have zfail: "zapply_jobs db' = zapply_jobs db"
    if "scrape_zapply_github (clock env) (zapply_report_raises env) (zapply_response env) = Inr None"
    using that m(3) run_zapply_no_batch by blast
  have gfail: "github_jobs db' = github_jobs db"
    if "scrape_simplify_jobs_github (clock env) (simplify_report_raises env) (simplify_response env)
          = Inr None"
    using that m(2) run_simplify_no_batch by blast
  have 1: "(nm, r) \<in> set results \<and> \<not> r_success r \<longrightarrow>
        (nm = ''simplify'' \<longrightarrow> github_jobs db' = github_jobs db) \<and>
        (nm = ''zapply'' \<longrightarrow> zapply_jobs db' = zapply_jobs db)"
    using m(1,2,3) by auto
  have 2: "zapply_response env = FetchFailed \<longrightarrow> zapply_jobs db' = zapply_jobs db"
    using zfail scrape_zapply_failed by blast
  have 3: "zapply_response env = Fetched md \<and>
        zapply_lines (clock env) zapply_init (split_on (CHR 0x0A) md) = Inl e \<longrightarrow>
        zapply_jobs db' = zapply_jobs db"
    using zfail scrape_zapply_failed by blast
  have 4: "zapply_response env = Fetched md \<and>
        zapply_lines (clock env) zapply_init (split_on (CHR 0x0A) md) = Inr st \<and> jobs st = [] \<longrightarrow>
        zapply_jobs db' = zapply_jobs db"
    using zfail scrape_zapply_failed by blast
  have 5: "simplify_response env = FetchFailed \<longrightarrow> github_jobs db' = github_jobs db"
    using gfail scrape_simplify_failed by blast
  have 6: "simplify_response env = Fetched [] \<longrightarrow> github_jobs db' = github_jobs db"
    using gfail scrape_simplify_failed by blast
  have 7: "simplify_response env = Fetched (tbl # others) \<and>
        List.map_filter (simplify_record (clock env)) (drop 1 tbl) = [] \<longrightarrow>
        github_jobs db' = github_jobs db"
    using gfail scrape_simplify_failed by blast
  have 8: "swe_main t rr FetchFailed raises db = db"
    by (simp add: swe_main_def scrape_zapply_swe_2026_def)
  have 9: "swe_jobs (foldl (swe_line t) swe_init (split_on (CHR 0x0A) md)) = [] \<longrightarrow>
        swe_main t rr (Fetched md) raises db = db"
    by (simp add: swe_main_def scrape_zapply_swe_2026_def Let_def)
  have 10: "save_to_database_github raises None db = db"
    "save_to_database_github raises (Some []) db = db"
    "save_to_database_zapply raises None db = db"
    "save_to_database_zapply raises (Some []) db = db"
    by (simp_all add: save_to_database_github_def save_to_database_zapply_def)
  from 1 2 3 4 5 6 7 8 9 10 show ?thesis
    by blast
qed
theorem failed_run_keeps_snapshot_witness:
  "zapply_jobs (snd (snd (main
      (sample_env (Fetched [])
         (Fetched (zapply_doc ''Acme'' ''Software Engineer'' ''9999999d ago'')) None)
      stocked_db))) = zapply_jobs stocked_db \<and>
   github_jobs (snd (snd (main
      (sample_env (Fetched [])
         (Fetched (zapply_doc ''Acme'' ''Software Engineer'' ''9999999d ago'')) None)
      stocked_db))) = github_jobs stocked_db \<and>
   zapply_jobs (snd (snd (main (sample_env FetchFailed FetchFailed None) stocked_db))) =
     zapply_jobs stocked_db"
proof -
  let ?doc = "zapply_doc ''Acme'' ''Software Engineer'' ''9999999d ago''"
  let ?env = "sample_env (Fetched []) (Fetched ?doc) None"
  let ?off = "sample_env FetchFailed FetchFailed None"
  have a: "main ?env stocked_db =
      (fst (main ?env stocked_db), fst (snd (main ?env stocked_db)),
       snd (snd (main ?env stocked_db)))"
    by simp
  have b: "main ?off stocked_db =
      (fst (main ?off stocked_db), fst (snd (main ?off stocked_db)),
       snd (snd (main ?off stocked_db)))"
    by simp
  have raised: "zapply_lines 739923 zapply_init (split_on (CHR 0x0A) ?doc) = Inl OverflowError"
    by code_simp
  have clk: "clock ?env = 739923"
    by (simp add: sample_env_def)
  have h3: "zapply_response ?env = Fetched ?doc \<and>
      zapply_lines (clock ?env) zapply_init (split_on (CHR 0x0A) ?doc) = Inl OverflowError"
    unfolding clk using raised by (simp add: sample_env_def)
  have h6: "simplify_response ?env = Fetched []"
    by (simp add: sample_env_def)
  have h2: "zapply_response ?off = FetchFailed"
    by (simp add: sample_env_def)
  note T = failed_run_keeps_snapshot [OF a, where md = ?doc and e = OverflowError]
  note U = failed_run_keeps_snapshot [OF b]
  have "zapply_jobs (snd (snd (main ?env stocked_db))) = zapply_jobs stocked_db"
    using T h3 by blast
  moreover have "github_jobs (snd (snd (main ?env stocked_db))) = github_jobs stocked_db"
    using T h6 by blast
  moreover have "zapply_jobs (snd (snd (main ?off stocked_db))) = zapply_jobs stocked_db"
    using U h2 by blast
  ultimately show ?thesis
    by blast
qed
lemma run_simplify_result_indep:
  "fst (run_simplify (env\<lparr>simplify_save_raises := fg, zapply_save_raises := fz\<rparr>) db) =
   fst (run_simplify env db0)"
  by (simp add: run_simplify_def Let_def split: option.splits dataframe.splits)

lemma run_zapply_result_indep:
  "fst (run_zapply (env\<lparr>simplify_save_raises := fg, zapply_save_raises := fz\<rparr>) db) =
   fst (run_zapply env db0)"
  by (simp add: run_zapply_def Let_def split: option.splits dataframe.splits)

lemma run_zapply_ignores_simplify_flag:
  "run_zapply (env\<lparr>simplify_save_raises := fg\<rparr>) db = run_zapply env db"
  by (simp add: run_zapply_def Let_def cong: if_cong option.case_cong dataframe.case_cong)

lemma run_simplify_ignores_zapply_flag:
  "run_simplify (env\<lparr>zapply_save_raises := fz\<rparr>) db = run_simplify env db"
  by (simp add: run_simplify_def Let_def cong: if_cong option.case_cong dataframe.case_cong)

lemma run_zapply_table_local:
  "zapply_jobs dbA = zapply_jobs dbB \<Longrightarrow>
   zapply_jobs (snd (run_zapply env dbA)) = zapply_jobs (snd (run_zapply env dbB))"
  by (simp add: run_zapply_def save_to_database_zapply_def Let_def
      split: option.splits dataframe.splits)

text \<open>
  C8, as the code has it. A persistence error is caught and printed inside the
  writer. The result the orchestrator records for a source, and with it the
  summary, is decided by the scrape alone: it is the same whichever step of
  either writer raises (or none), and no row count is compared with the batch
  size. A writer changes no table but its own, so an error in one source's
  write leaves the other sources' tables as a run without the error leaves
  them.
\<close>

theorem persistence_error_is_silent:
  "fst (main (env\<lparr>simplify_save_raises := fg, zapply_save_raises := fz\<rparr>) db) = fst (main env db) \<and>
   fst (snd (main (env\<lparr>simplify_save_raises := fg, zapply_save_raises := fz\<rparr>) db)) =
     fst (snd (main env db)) \<and>
   zapply_jobs (snd (snd (main (env\<lparr>simplify_save_raises := fg\<rparr>) db))) =
     zapply_jobs (snd (snd (main env db))) \<and>
   github_jobs (snd (snd (main (env\<lparr>zapply_save_raises := fz\<rparr>) db))) =
     github_jobs (snd (snd (main env db))) \<and>
   zapply_swe_2026_jobs (snd (snd (main env db))) = zapply_swe_2026_jobs db \<and>
   zapply_jobs (save_to_database_github fg gbatch db) = zapply_jobs db \<and>
   zapply_swe_2026_jobs (save_to_database_github fg gbatch db) = zapply_swe_2026_jobs db \<and>
   github_jobs (save_to_database_zapply fz zbatch db) = github_jobs db \<and>
   zapply_swe_2026_jobs (save_to_database_zapply fz zbatch db) = zapply_swe_2026_jobs db"
proof -
  let ?env12 = "env\<lparr>simplify_save_raises := fg, zapply_save_raises := fz\<rparr>"
  have r1: "fst (run_simplify ?env12 db) = fst (run_simplify env db)"
    by (rule run_simplify_result_indep)
  have r2: "fst (run_zapply ?env12 (snd (run_simplify ?env12 db))) =
      fst (run_zapply env (snd (run_simplify env db)))"
    by (rule run_zapply_result_indep)
  have res: "fst (main ?env12 db) = fst (main env db)"
    by (simp add: main_unfold r1 r2)
  have prt: "fst (snd (main ?env12 db)) = fst (snd (main env db))"
    by (simp add: main_unfold r1 r2)
  have z: "zapply_jobs (snd (snd (main (env\<lparr>simplify_save_raises := fg\<rparr>) db))) =
      zapply_jobs (snd (snd (main env db)))"
  proof -
    obtain ra da where a: "run_simplify (env\<lparr>simplify_save_raises := fg\<rparr>) db = (ra, da)"
      by (cases "run_simplify (env\<lparr>simplify_save_raises := fg\<rparr>) db")
    obtain rb dc where b: "run_simplify env db = (rb, dc)"
      by (cases "run_simplify env db")
    have "zapply_jobs da = zapply_jobs dc"
      using run_simplify_other_tables [OF a] run_simplify_other_tables [OF b] by simp
    then have "zapply_jobs (snd (run_zapply env da)) = zapply_jobs (snd (run_zapply env dc))"
      by (rule run_zapply_table_local)
    then show ?thesis
      by (simp add: main_unfold run_zapply_ignores_simplify_flag a b)
  qed
  have g: "github_jobs (snd (snd (main (env\<lparr>zapply_save_raises := fz\<rparr>) db))) =
      github_jobs (snd (snd (main env db)))"
  proof -
    let ?d = "snd (run_simplify env db)"
    obtain ra da where a: "run_zapply (env\<lparr>zapply_save_raises := fz\<rparr>) ?d = (ra, da)"
      by (cases "run_zapply (env\<lparr>zapply_save_raises := fz\<rparr>) ?d")
    obtain rb dc where b: "run_zapply env ?d = (rb, dc)"
      by (cases "run_zapply env ?d")
    have "github_jobs da = github_jobs dc"
      using run_zapply_other_tables [OF a] run_zapply_other_tables [OF b] by simp
    then show ?thesis
      by (simp add: main_unfold run_simplify_ignores_zapply_flag a b)
  qed
  have m: "main env db = (fst (main env db), fst (snd (main env db)), snd (snd (main env db)))"
    by simp
  have s: "zapply_swe_2026_jobs (snd (snd (main env db))) = zapply_swe_2026_jobs db"
    by (rule main_tables(4) [OF m])
  have w: "zapply_jobs (save_to_database_github fg gbatch db) = zapply_jobs db"
    "zapply_swe_2026_jobs (save_to_database_github fg gbatch db) = zapply_swe_2026_jobs db"
    "github_jobs (save_to_database_zapply fz zbatch db) = github_jobs db"
    "zapply_swe_2026_jobs (save_to_database_zapply fz zbatch db) = zapply_swe_2026_jobs db"
    by (simp_all add: save_to_database_github_def save_to_database_zapply_def Let_def
        split: option.splits)
  from res prt z g s w show ?thesis
    by blast
qed

theorem persistence_error_is_silent_witness:
  "fst (main (sample_env FetchFailed (Fetched (zapply_doc ''Acme'' ''Software Engineer'' ''3d ago''))
          (Some InsertRows)) stocked_db) =
   fst (main (sample_env FetchFailed (Fetched (zapply_doc ''Acme'' ''Software Engineer'' ''3d ago''))
          None) stocked_db)"
proof -
  let ?env = "sample_env FetchFailed
      (Fetched (zapply_doc ''Acme'' ''Software Engineer'' ''3d ago'')) None"
  have "?env\<lparr>simplify_save_raises := None, zapply_save_raises := Some InsertRows\<rparr> =
      sample_env FetchFailed (Fetched (zapply_doc ''Acme'' ''Software Engineer'' ''3d ago''))
        (Some InsertRows)"
    by (simp add: sample_env_def)
  then show ?thesis
    using persistence_error_is_silent [where env = ?env and fg = None and fz = "Some InsertRows" and db = stocked_db]
    by simp
qed

theorem persistence_error_counterexample:
  "breakdown (fst (master_scraper
      (sample_env FetchFailed (Fetched (zapply_doc ''Acme'' ''Software Engineer'' ''3d ago''))
         (Some CreateTable)) empty_db)) =
     [(False, ''simplify'', 0, 30), (True, ''zapply'', 1, 2)] \<and>
   zapply_jobs (snd (snd (master_scraper
      (sample_env FetchFailed (Fetched (zapply_doc ''Acme'' ''Software Engineer'' ''3d ago''))
         (Some CreateTable)) empty_db))) = None \<and>
   breakdown (fst (master_scraper
      (sample_env FetchFailed (Fetched (zapply_doc ''Acme'' ''Software Engineer'' ''3d ago''))
         (Some InsertRows)) stocked_db)) =
     [(False, ''simplify'', 0, 30), (True, ''zapply'', 1, 2)] \<and>
   zapply_jobs (snd (snd (master_scraper
      (sample_env FetchFailed (Fetched (zapply_doc ''Acme'' ''Software Engineer'' ''3d ago''))
         (Some InsertRows)) stocked_db))) = zapply_jobs stocked_db"
  by code_simp

section \<open>The pattern of relative time phrases\<close>




























end
